theory Spec2Isabelle
  imports Complex_Main
begin

section \<open>JavaScript values\<close>

text \<open>
  The plugin (index.js) receives JSON from two endpoints and passes parts of it on.
  A scalar of such a response, or the result of reading a field or an index that is not
  there, is a \<open>jsval\<close>. JavaScript numbers are IEEE doubles. In the unit converters and
  in the tile arithmetic a finite number is taken as a real, without the rounding of the
  double operations; the quotient that bounds the directory loop is rounded as the
  double division rounds it (see \<open>to_double\<close> below).
\<close>

datatype jsval = JUndefined | JNull | JNum real | JStr string

text \<open>
  The fields \<open>dir\<close> and \<open>temp\<close> of a station reading are a JSON number or null in the
  provider's interface, and \<open>undefined\<close> when the response lacks them. The results
  of the arithmetic on them can also be NaN.
\<close>

datatype jsnum = NUndefined | NNull | NNum real | NNaN

text \<open>\<open>value * k\<close> and \<open>value + k\<close> for a numeric constant \<open>k\<close>: null converts to 0,
  undefined to NaN.\<close>

fun js_times :: "jsnum \<Rightarrow> real \<Rightarrow> jsnum" where
  "js_times (NNum v) k = NNum (v * k)"
| "js_times NNull k = NNum (0 * k)"
| "js_times NUndefined k = NNaN"
| "js_times NNaN k = NNaN"

fun js_plus :: "jsnum \<Rightarrow> real \<Rightarrow> jsnum" where
  "js_plus (NNum v) k = NNum (v + k)"
| "js_plus NNull k = NNum (0 + k)"
| "js_plus NUndefined k = NNaN"
| "js_plus NNaN k = NNaN"

section \<open>Doubles\<close>

text \<open>
  A double as the result of an operation: a finite real (with \<open>Finite 0\<close> for the
  positive zero), the negative zero, NaN, or an infinity.
\<close>

datatype jsnumber = Finite real | NegZero | NaN | PosInfinity | NegInfinity

text \<open>
  Rounding a real to the nearest double, ties to even. The doubles around \<open>x\<close> are the
  multiples of \<open>ulp x\<close>: 53 significant bits in the binade of \<open>x\<close>, and the fixed
  spacing \<open>2^-1074\<close> below \<open>2^-1022\<close>. A result of magnitude \<open>2^1024\<close> or more is
  an infinity.
\<close>

definition binade :: "real \<Rightarrow> int" where
  "binade x = max \<lfloor>log 2 \<bar>x\<bar>\<rfloor> (- 1022)"

definition ulp :: "real \<Rightarrow> real" where
  "ulp x = 2 powr of_int (binade x - 52)"

definition round_even :: "real \<Rightarrow> int" where
  "round_even m =
     (let f = \<lfloor>m\<rfloor> in
      if m - of_int f < 1 / 2 then f
      else if 1 / 2 < m - of_int f then f + 1
      else if even f then f else f + 1)"

definition to_double :: "real \<Rightarrow> jsnumber" where
  "to_double x =
     (let y = of_int (round_even (x / ulp x)) * ulp x in
      if 2 ^ 1024 \<le> \<bar>y\<bar> then (if x < 0 then NegInfinity else PosInfinity)
      else if y = 0 then (if x < 0 then NegZero else Finite 0)
      else Finite y)"

section \<open>Unit converters\<close>

definition degreesToRadians :: "jsnum \<Rightarrow> jsnum" where
  "degreesToRadians v = (if v = NNull then NNull else js_times v 0.0174533)"

definition celsiusToKelvin :: "jsnum \<Rightarrow> jsnum" where
  "celsiusToKelvin v = (if v = NNull then NNull else js_plus v 273.15)"

section \<open>Tile coordinates\<close>

text \<open>
  \<open>parseInt\<close> of a number converts it to a string and reads the leading integer of
  that string. Number-to-string uses decimal notation for 0 and for magnitudes from
  \<open>10^-6\<close> up to (not including) \<open>10^21\<close>, so the leading integer is the number with
  its fraction cut off. Outside that range the string is in exponent notation
  (\<open>7.1e-11\<close>, \<open>1e+21\<close>) and the leading integer is the first significant digit.
\<close>

definition decimal_notation :: "real \<Rightarrow> bool" where
  "decimal_notation v \<longleftrightarrow> v = 0 \<or> (1 / 10 ^ 6 \<le> \<bar>v\<bar> \<and> \<bar>v\<bar> < 10 ^ 21)"

definition leading_digit :: "real \<Rightarrow> int" where
  "leading_digit v = \<lfloor>\<bar>v\<bar> / 10 powr of_int \<lfloor>log 10 \<bar>v\<bar>\<rfloor>\<rfloor>"

definition parseInt :: "real \<Rightarrow> int" where
  "parseInt v =
     (if decimal_notation v then (if v < 0 then - \<lfloor>\<bar>v\<bar>\<rfloor> else \<lfloor>\<bar>v\<bar>\<rfloor>)
      else (if v < 0 then - leading_digit v else leading_digit v))"

record tile =
  xtile :: int
  ytile :: int

text \<open>
  \<open>math.unit(lat_deg, 'deg').to('rad')\<close> multiplies by \<open>pi / 180\<close>. The real tangent
  has poles where the cosine is 0 (HOL gives \<open>tan\<close> the value 0 there, the doubles give
  a huge finite number), so statements about \<open>ytile\<close> below keep away from them.
\<close>

definition deg2num :: "real \<Rightarrow> real \<Rightarrow> int \<Rightarrow> tile" where
  "deg2num lat_deg lon_deg zoom =
     (let lat_rad = lat_deg * (pi / 180);
          n = 2 powr of_int zoom
      in \<lparr>xtile = parseInt ((lon_deg + 180) / 360 * n),
          ytile = parseInt ((1 - arsinh (tan lat_rad) / pi) / 2 * n)\<rparr>)"

text \<open>The two real values that \<open>deg2num\<close> hands to \<open>parseInt\<close>.\<close>

definition xtile_real :: "real \<Rightarrow> int \<Rightarrow> real" where
  "xtile_real lon_deg zoom = (lon_deg + 180) / 360 * 2 powr of_int zoom"

definition ytile_real :: "real \<Rightarrow> int \<Rightarrow> real" where
  "ytile_real lat_deg zoom =
     (1 - arsinh (tan (lat_deg * (pi / 180))) / pi) / 2 * 2 powr of_int zoom"

section \<open>Effects of the plugin\<close>

text \<open>
  What the plugin does to the outside is a list of effects, in the order they happen:
  a debug line, an HTTP GET, a delta handed to \<open>app.handleMessage\<close>, or a TypeError
  thrown inside a callback. URLs and debug lines built from template literals are kept
  as the template with its arguments.
\<close>

datatype url = TilesUrl int int int | StationUrl jsval

datatype message =
    PositionMissing
  | ExcludedStation jsval
  | RetrievingStation jsval
  | RetrievingStationsVia url
  | ErrorRetrieving url
  | ErrorRetrievingStations

datatype pvalue = PJson jsval | PNumber jsnum | PPosition jsval jsval | PText string

datatype effect =
    Debug message
  | HttpGet url
  | HandleMessage "(string \<times> pvalue) list"
  | TypeError

text \<open>The outcome of a request as its callback sees it: \<open>error\<close> set, or a status
  code with the parsed body.\<close>

datatype 'a reply = TransportError | Reply int 'a

record reading =
  name :: jsval
  time :: jsval
  lat :: jsval
  lon :: jsval
  wind :: jsval
  gust :: jsval
  dir :: jsnum
  temp :: jsnum

text \<open>
  The body of a directory reply. \<open>items\<close> is the width as the division reads it, that
  is after the conversion to a number that \<open>/\<close> applies to its operand: the double of
  a JSON number (\<open>NegZero\<close> for \<open>-0\<close>), \<open>Finite 0\<close> for null, NaN for a missing field
  or a string that is not a numeral.
\<close>

record directory =
  items :: jsnumber
  data :: "jsval list"

section \<open>Fetching one station\<close>

definition observationsKey :: string where
  "observationsKey = ''observations.windy''"

text \<open>\<open>toLowerCase\<close> on the ASCII letters; identifiers are taken to be ASCII.\<close>

definition lower_char :: "char \<Rightarrow> char" where
  "lower_char c =
     (case map_of (zip ''ABCDEFGHIJKLMNOPQRSTUVWXYZ'' ''abcdefghijklmnopqrstuvwxyz'') c of
        Some l \<Rightarrow> l
      | None \<Rightarrow> c)"

definition toLowerCase :: "string \<Rightarrow> string" where
  "toLowerCase s = map lower_char s"

text \<open>\<open>excludedStations.includes(station)\<close>: the list holds strings, and
  \<open>includes\<close> compares without conversion, so only an equal string is found.\<close>

definition array_includes :: "string list \<Rightarrow> jsval \<Rightarrow> bool" where
  "array_includes xs v = (case v of JStr s \<Rightarrow> s \<in> set xs | _ \<Rightarrow> False)"

definition station_values :: "string \<Rightarrow> reading \<Rightarrow> (string \<times> pvalue) list" where
  "station_values stationId r =
     [(observationsKey @ ''.'' @ stationId @ ''.name'', PJson (name r)),
      (observationsKey @ ''.'' @ stationId @ ''.date'', PJson (time r)),
      (observationsKey @ ''.'' @ stationId @ ''.position'', PPosition (lat r) (lon r)),
      (observationsKey @ ''.'' @ stationId @ ''.wind.speed'', PJson (wind r)),
      (observationsKey @ ''.'' @ stationId @ ''.wind.gust'', PJson (gust r)),
      (observationsKey @ ''.'' @ stationId @ ''.wind.direction'',
         PNumber (degreesToRadians (dir r))),
      (observationsKey @ ''.'' @ stationId @ ''.temperature'',
         PNumber (celsiusToKelvin (temp r))),
      (observationsKey @ ''.'' @ stationId @ ''.url'',
         PText (''https://www.windy.com/station/'' @ toLowerCase stationId))]"

text \<open>The callback of the station request. \<open>station.toLowerCase()\<close> throws a
  TypeError when the station is not a string.\<close>

definition station_callback :: "jsval \<Rightarrow> reading reply \<Rightarrow> effect list" where
  "station_callback station r =
     (case r of
        Reply statusCode body \<Rightarrow>
          if statusCode = 200 then
            (case station of
               JStr s \<Rightarrow> [HandleMessage (station_values (toLowerCase s) body)]
             | _ \<Rightarrow> [TypeError])
          else [Debug (ErrorRetrieving (StationUrl station))]
      | TransportError \<Rightarrow> [Debug (ErrorRetrieving (StationUrl station))])"

text \<open>
  \<open>retrieveStationData\<close> returns at once; the callback runs later. The result is the
  pair of what happens during the call and what happens when the reply arrives.
  \<open>net\<close> gives the reply to the request for a station.
\<close>

definition retrieveStationData ::
  "string list \<Rightarrow> (jsval \<Rightarrow> reading reply) \<Rightarrow> jsval \<Rightarrow> effect list \<times> effect list" where
  "retrieveStationData excludedStations net station =
     (if array_includes excludedStations station then ([Debug (ExcludedStation station)], [])
      else ([Debug (RetrievingStation station), HttpGet (StationUrl station)],
            station_callback station (net station)))"

section \<open>Decoding the directory\<close>

text \<open>
  The quotient \<open>stations.length / data.items\<close>. The length is not negative. A zero
  divisor gives NaN for length 0 and otherwise the infinity with the sign of the zero; an
  infinite divisor gives a zero; a finite divisor gives the exact quotient rounded to a
  double.
\<close>

fun js_div :: "nat \<Rightarrow> jsnumber \<Rightarrow> jsnumber" where
  "js_div len NaN = NaN"
| "js_div len PosInfinity = Finite 0"
| "js_div len NegInfinity = NegZero"
| "js_div len NegZero = (if len = 0 then NaN else NegInfinity)"
| "js_div len (Finite w) =
     (if w = 0 then (if len = 0 then NaN else PosInfinity)
      else if len = 0 then (if w < 0 then NegZero else Finite 0)
      else to_double (real len / w))"

text \<open>The loop condition \<open>i < stationCount\<close> for a counter \<open>i\<close>, which is never
  negative: false for NaN, for the negative zero and for \<open>-Infinity\<close>.\<close>

fun js_less :: "nat \<Rightarrow> jsnumber \<Rightarrow> bool" where
  "js_less i (Finite c) = (real i < c)"
| "js_less i NegZero = False"
| "js_less i NaN = False"
| "js_less i PosInfinity = True"
| "js_less i NegInfinity = False"

text \<open>Reading an array at an index: \<open>undefined\<close> beyond the end.\<close>

definition at_index :: "jsval list \<Rightarrow> nat \<Rightarrow> jsval" where
  "at_index xs k = (if k < length xs then xs ! k else JUndefined)"

text \<open>
  \<open>i++\<close> on the loop counter, a natural number held in a double: exact below \<open>2^53\<close>;
  at \<open>2^53\<close> the sum \<open>2^53 + 1\<close> is a tie that rounds back to \<open>2^53\<close>, so the counter
  stays there.
\<close>

definition js_inc :: "nat \<Rightarrow> nat" where
  "js_inc i = (if i < 2 ^ 53 then Suc i else i)"

text \<open>
  \<open>for (let i = 0; i < bound; i++) body(i)\<close>, with the results of the body collected in
  order. The loop may run forever, so it takes fuel, one unit for each iteration, and
  gives \<open>None\<close> when the fuel does not reach the exit.
\<close>

fun for_loop :: "nat \<Rightarrow> jsnumber \<Rightarrow> nat \<Rightarrow> (nat \<Rightarrow> 'a) \<Rightarrow> 'a list option" where
  "for_loop 0 bound i body = (if js_less i bound then None else Some [])"
| "for_loop (Suc fuel) bound i body =
     (if js_less i bound then map_option ((#) (body i)) (for_loop fuel bound (js_inc i) body)
      else Some [])"

definition stationCount :: "directory \<Rightarrow> jsnumber" where
  "stationCount d = js_div (length (data d)) (items d)"

text \<open>
  The loop of the directory callback: the stations it hands to \<open>retrieveStationData\<close>,
  in order, and the number of times its body runs. The index \<open>i * 7\<close> is exact while it
  is below the length of the listing, and at or beyond the length the read is
  \<open>undefined\<close> whatever the rounding of the product.
\<close>

definition decode_stations :: "nat \<Rightarrow> directory \<Rightarrow> jsval list option" where
  "decode_stations fuel d =
     for_loop fuel (stationCount d) 0 (\<lambda>i. at_index (data d) (i * 7))"

definition iterations :: "nat \<Rightarrow> directory \<Rightarrow> nat option" where
  "iterations fuel d = map_option length (decode_stations fuel d)"

text \<open>The directory callback: the calls of \<open>retrieveStationData\<close> made by the loop
  first, the station callbacks after the loop has ended (taken in the order of the
  requests).\<close>

definition directory_callback ::
  "nat \<Rightarrow> string list \<Rightarrow> (jsval \<Rightarrow> reading reply) \<Rightarrow> directory reply \<Rightarrow> effect list option" where
  "directory_callback fuel excludedStations net r =
     (case r of
        Reply statusCode d \<Rightarrow>
          if statusCode = 200 then
            map_option
              (\<lambda>stations.
                 let rs = map (retrieveStationData excludedStations net) stations
                 in concat (map fst rs) @ concat (map snd rs))
              (decode_stations fuel d)
          else Some [Debug ErrorRetrievingStations]
      | TransportError \<Rightarrow> Some [Debug ErrorRetrievingStations])"

definition retrieveObservations ::
  "nat \<Rightarrow> string list \<Rightarrow> (url \<Rightarrow> directory reply) \<Rightarrow> (jsval \<Rightarrow> reading reply) \<Rightarrow>
     real \<Rightarrow> real \<Rightarrow> effect list option" where
  "retrieveObservations fuel excludedStations tiles_net net lat_deg lng =
     (let zoom = 8;
          tiles = deg2num lat_deg lng zoom;
          u = TilesUrl zoom (xtile tiles) (ytile tiles)
      in map_option (\<lambda>es. [Debug (RetrievingStationsVia u), HttpGet u] @ es)
           (directory_callback fuel excludedStations net (tiles_net u)))"

section \<open>One cycle\<close>

record position =
  latitude :: real
  longitude :: real

text \<open>
  \<open>app.getSelfPath('navigation.position')\<close> gives nothing, or the node of the data
  model at that path. The node holds the position under \<open>value\<close>; a node can be there
  without a value (\<open>value\<close> null or missing). A value carries a numeric latitude and
  longitude.
\<close>

record node =
  node_value :: "position option"

text \<open>
  The cycle skips on a falsy result only. Of any other result it reads
  \<open>position.value.latitude\<close>, which throws a TypeError when the node has no value.
\<close>

definition checkAndPublishObservations ::
  "nat \<Rightarrow> string list \<Rightarrow> (url \<Rightarrow> directory reply) \<Rightarrow> (jsval \<Rightarrow> reading reply) \<Rightarrow>
     node option \<Rightarrow> effect list option" where
  "checkAndPublishObservations fuel excludedStations tiles_net net pos =
     (case pos of
        None \<Rightarrow> Some [Debug PositionMissing]
      | Some nd \<Rightarrow>
          (case node_value nd of
             None \<Rightarrow> Some [TypeError]
           | Some v \<Rightarrow>
               retrieveObservations fuel excludedStations tiles_net net
                 (latitude v) (longitude v)))"

section \<open>Start, stop and the timers\<close>

text \<open>\<open>\s\<close> on ASCII: tab, line feed, vertical tab, form feed, carriage return, space.\<close>

definition is_space :: "char \<Rightarrow> bool" where
  "is_space c \<longleftrightarrow> (of_char c :: nat) \<in> {9, 10, 11, 12, 13, 32}"

text \<open>A match of \<open>/\s*,\s*/\<close> at the start of the string: what is left after it.\<close>

definition separator :: "string \<Rightarrow> string option" where
  "separator s =
     (case dropWhile is_space s of
        [] \<Rightarrow> None
      | c # r \<Rightarrow> if c = CHR '','' then Some (dropWhile is_space r) else None)"

text \<open>\<open>split\<close> with that pattern: the piece read so far, then the rest of the string.\<close>

function split_commas :: "string \<Rightarrow> string \<Rightarrow> string list" where
  "split_commas piece [] = [piece]"
| "split_commas piece (c # cs) =
     (case separator (c # cs) of
        Some r \<Rightarrow> piece # split_commas [] r
      | None \<Rightarrow> split_commas (piece @ [c]) cs)"
  by pat_completeness auto
termination
proof (relation "measure (\<lambda>(piece, s). length s)")
  show "wf (measure (\<lambda>(piece, s). length s))"
    by simp
next
  fix piece :: string and c cs r
  assume "separator (c # cs) = Some r"
  then obtain t where t: "dropWhile is_space (c # cs) = CHR '','' # t" "r = dropWhile is_space t"
    by (auto simp add: separator_def simp del: dropWhile.simps split: list.splits if_splits)
  have "length (dropWhile is_space (c # cs)) \<le> length (c # cs)"
    by (rule length_dropWhile_le)
  then have "length t < length (c # cs)"
    unfolding t(1) by simp
  moreover have "length r \<le> length t"
    unfolding t(2) by (rule length_dropWhile_le)
  ultimately show "(([], r), (piece, c # cs)) \<in> measure (\<lambda>(piece, s). length s)"
    by simp
next
  fix piece :: string and c cs
  show "((piece @ [c], cs), (piece, c # cs)) \<in> measure (\<lambda>(piece, s). length s)"
    by simp
qed

record options =
  excludeList :: "string option"

datatype timer = Timeout nat | Interval nat nat

fun due :: "timer \<Rightarrow> nat" where
  "due (Timeout t) = t"
| "due (Interval t period) = t"

fun rearm :: "timer \<Rightarrow> timer list" where
  "rearm (Timeout t) = []"
| "rearm (Interval t period) = [Interval (t + period) period]"

text \<open>
  The state of a plugin instance and of the timers it has armed: the exclusion list,
  the armed timers with the time (in ms) they are due, the clock, and the times at which
  \<open>checkAndPublishObservations\<close> has been called. The callback of both timers is that
  call and nothing else.
\<close>

record plugin =
  excludedStations :: "string list"
  timers :: "timer list"
  clock :: nat
  calls :: "nat list"

definition checkEveryNMinutes :: nat where
  "checkEveryNMinutes = 15"

definition plugin_start :: "options \<Rightarrow> plugin \<Rightarrow> plugin" where
  "plugin_start opts s =
     s\<lparr>excludedStations :=
          (case excludeList opts of
             None \<Rightarrow> []
           | Some l \<Rightarrow> if l = [] then [] else split_commas [] l),
       timers := timers s @
          [Timeout (clock s + 5000),
           Interval (clock s + checkEveryNMinutes * 60 * 1000) (checkEveryNMinutes * 60 * 1000)]\<rparr>"

definition plugin_stop :: "plugin \<Rightarrow> plugin" where
  "plugin_stop s = s"

text \<open>The event loop runs the armed timer that is due first: the clock moves to its
  time, its callback is called, a timeout is gone and an interval is armed again.\<close>

definition fire_next :: "plugin \<Rightarrow> plugin" where
  "fire_next s =
     (if timers s = [] then s
      else
        let t = arg_min_list due (timers s);
            now = max (clock s) (due t)
        in s\<lparr>timers := remove1 t (timers s) @ rearm t,
             clock := now,
             calls := calls s @ [now]\<rparr>)"

text \<open>The instance as the module function returns it: nothing armed, nothing called.\<close>

definition loaded :: plugin where
  "loaded = \<lparr>excludedStations = [], timers = [], clock = 0, calls = []\<rparr>"

text \<open>The requests and the deltas among a list of effects.\<close>

fun request_of :: "effect \<Rightarrow> url list" where
  "request_of (HttpGet u) = [u]"
| "request_of e = []"

fun delta_of :: "effect \<Rightarrow> (string \<times> pvalue) list list" where
  "delta_of (HandleMessage vs) = [vs]"
| "delta_of e = []"

definition requests :: "effect list \<Rightarrow> url list" where
  "requests es = concat (map request_of es)"

definition published :: "effect list \<Rightarrow> (string \<times> pvalue) list list" where
  "published es = concat (map delta_of es)"

text \<open>An interval among the armed timers: it is armed again each time it fires.\<close>

fun is_interval :: "timer \<Rightarrow> bool" where
  "is_interval (Interval t period) = True"
| "is_interval (Timeout t) = False"

definition has_interval :: "plugin \<Rightarrow> bool" where
  "has_interval s = list_ex is_interval (timers s)"

section \<open>The unit converters\<close>

text \<open>
  C4. The converters give null for null, never NaN or a number, and for a number the
  number times 0.0174533, respectively plus 273.15.
\<close>

theorem converters_preserve_null:
  "degreesToRadians NNull = NNull \<and> celsiusToKelvin NNull = NNull
   \<and> degreesToRadians NNull \<noteq> NNaN \<and> celsiusToKelvin NNull \<noteq> NNaN
   \<and> degreesToRadians NNull \<noteq> NNum w \<and> celsiusToKelvin NNull \<noteq> NNum w
   \<and> degreesToRadians (NNum v) = NNum (v * 0.0174533)
   \<and> celsiusToKelvin (NNum v) = NNum (v + 273.15)"
  by (simp add: degreesToRadians_def celsiusToKelvin_def)

text \<open>Bounds on \<open>pi\<close> from Machin's formula: the partial sums of the alternating
  arctangent series lie on both sides of its limit.\<close>

lemma arctan_between:
  fixes u :: real
  assumes "0 < u" "u \<le> 1"
  shows "(\<Sum>k<2 * n. (- 1) ^ k * (1 / real (k * 2 + 1) * u ^ (k * 2 + 1))) \<le> arctan u"
    and "arctan u \<le> (\<Sum>k<2 * n + 1. (- 1) ^ k * (1 / real (k * 2 + 1) * u ^ (k * 2 + 1)))"
proof -
  have small: "\<bar>u\<bar> \<le> 1" using assms by simp
  have first: "0 < 1 / real (0 * 2 + 1) * u ^ (0 * 2 + 1)" using assms by simp
  from summable_Leibniz(2) [OF zeroseq_arctan_series [OF small] monoseq_arctan_series [OF small]] first
  have "arctan u \<in> {(\<Sum>k<2 * n. (- 1) ^ k * (1 / real (k * 2 + 1) * u ^ (k * 2 + 1))) ..
                    (\<Sum>k<2 * n + 1. (- 1) ^ k * (1 / real (k * 2 + 1) * u ^ (k * 2 + 1)))}"
    unfolding arctan_series [OF small] by blast
  then show "(\<Sum>k<2 * n. (- 1) ^ k * (1 / real (k * 2 + 1) * u ^ (k * 2 + 1))) \<le> arctan u"
    and "arctan u \<le> (\<Sum>k<2 * n + 1. (- 1) ^ k * (1 / real (k * 2 + 1) * u ^ (k * 2 + 1)))"
    by simp_all
qed

lemma pi_seven_digits: "3.1415926 < pi" "pi < 3.1415927"
proof -
  have m: "pi = 16 * arctan (1 / 5) - 4 * arctan (1 / 239)"
    using machin by simp
  have a5l: "(\<Sum>k<2 * 3. (- 1) ^ k * (1 / real (k * 2 + 1) * (1 / 5) ^ (k * 2 + 1))) \<le> arctan (1 / 5 :: real)"
    by (rule arctan_between(1)) simp_all
  have a5u: "arctan (1 / 5 :: real) \<le> (\<Sum>k<2 * 3 + 1. (- 1) ^ k * (1 / real (k * 2 + 1) * (1 / 5) ^ (k * 2 + 1)))"
    by (rule arctan_between(2)) simp_all
  have a239l: "(\<Sum>k<2 * 1. (- 1) ^ k * (1 / real (k * 2 + 1) * (1 / 239) ^ (k * 2 + 1))) \<le> arctan (1 / 239 :: real)"
    by (rule arctan_between(1)) simp_all
  have a239u: "arctan (1 / 239 :: real) \<le> (\<Sum>k<2 * 1 + 1. (- 1) ^ k * (1 / real (k * 2 + 1) * (1 / 239) ^ (k * 2 + 1)))"
    by (rule arctan_between(2)) simp_all
  show "3.1415926 < pi"
    using a5l a239u unfolding m by (simp add: eval_nat_numeral)
  show "pi < 3.1415927"
    using a5u a239l unfolding m by (simp add: eval_nat_numeral)
qed

text \<open>
  C9. \<open>degreesToRadians(180)\<close> is a number within two millionths of \<open>pi\<close>, which is
  closer than the 1.5708 that the specification writes for \<open>pi/2\<close> is to \<open>pi/2\<close>, and
  \<open>celsiusToKelvin(0)\<close> is exactly 273.15.
\<close>

theorem degrees_180_near_pi:
  "(\<exists>r. degreesToRadians (NNum 180) = NNum r \<and> \<bar>r - pi\<bar> < 2 / 10 ^ 6)
   \<and> celsiusToKelvin (NNum 0) = NNum 273.15"
proof -
  have "degreesToRadians (NNum 180) = NNum 3.141594"
    by (simp add: degreesToRadians_def)
  moreover have "\<bar>3.141594 - pi\<bar> < 2 / 10 ^ 6"
    using pi_seven_digits by simp
  moreover have "celsiusToKelvin (NNum 0) = NNum 273.15"
    by (simp add: celsiusToKelvin_def)
  ultimately show ?thesis by blast
qed

section \<open>The tile of a position\<close>

lemma parseInt_decimal:
  "decimal_notation v \<Longrightarrow> parseInt v = (if 0 \<le> v then \<lfloor>v\<rfloor> else \<lceil>v\<rceil>)"
  by (simp add: parseInt_def ceiling_def)

lemma deg2num_parts:
  "xtile (deg2num la lo z) = parseInt (xtile_real lo z)"
  "ytile (deg2num la lo z) = parseInt (ytile_real la z)"
  by (simp_all add: deg2num_def xtile_real_def ytile_real_def Let_def)

text \<open>
  C6. \<open>deg2num\<close> depends on its three arguments only, so equal arguments give equal
  tiles, and latitude 0, longitude 0 at zoom 8 give the tile (128, 128).
\<close>

theorem deg2num_deterministic_and_reference:
  "(la = la' \<and> lo = lo' \<and> z = z' \<longrightarrow> deg2num la lo z = deg2num la' lo' z')
   \<and> deg2num 0 0 8 = \<lparr>xtile = 128, ytile = 128\<rparr>"
  by (simp add: deg2num_def parseInt_def decimal_notation_def)

theorem deg2num_deterministic_and_reference_witness:
  "((0 :: real) = 0 \<and> (0 :: real) = 0 \<and> (8 :: int) = 8) \<and> deg2num 0 0 8 = deg2num 0 0 8
   \<and> deg2num 0 0 8 = \<lparr>xtile = 128, ytile = 128\<rparr>"
  using deg2num_deterministic_and_reference [of 0 0 0 0 8 8] by simp

text \<open>
  C2 (as amended). The tile coordinates are \<open>parseInt\<close> of the two real values.
  Where such a value is written in decimal notation (it is 0, or its magnitude is at least
  \<open>10^-6\<close> and below \<open>10^21\<close>) the coordinate is the value cut off towards zero: its
  floor when the value is not negative, its ceiling when it is negative. For the row
  coordinate the latitude is away from the poles of the tangent.
\<close>

theorem deg2num_truncates:
  "(decimal_notation (xtile_real lo z) \<longrightarrow>
      xtile (deg2num la lo z) =
        (if 0 \<le> xtile_real lo z then \<lfloor>xtile_real lo z\<rfloor> else \<lceil>xtile_real lo z\<rceil>))
   \<and> (cos (la * (pi / 180)) \<noteq> 0 \<and> decimal_notation (ytile_real la z) \<longrightarrow>
      ytile (deg2num la lo z) =
        (if 0 \<le> ytile_real la z then \<lfloor>ytile_real la z\<rfloor> else \<lceil>ytile_real la z\<rceil>))"
  by (simp add: deg2num_parts parseInt_decimal)

theorem deg2num_truncates_witness:
  "decimal_notation (xtile_real (- 181) 8) \<and> xtile (deg2num 0 (- 181) 8) = 0
   \<and> cos (0 * (pi / 180)) \<noteq> 0 \<and> decimal_notation (ytile_real 0 8)
   \<and> ytile (deg2num 0 (- 181) 8) = 128"
proof -
  have x: "xtile_real (- 181) 8 = - (32 / 45)"
    by (simp add: xtile_real_def)
  have y: "ytile_real 0 8 = 128"
    by (simp add: ytile_real_def)
  have dx: "decimal_notation (xtile_real (- 181) 8)"
    unfolding x by (simp add: decimal_notation_def)
  have dy: "cos (0 * (pi / 180)) \<noteq> 0 \<and> decimal_notation (ytile_real 0 8)"
    unfolding y by (simp add: decimal_notation_def)
  from deg2num_truncates [of "- 181" 8 0] dx dy
  have "xtile (deg2num 0 (- 181) 8) = \<lceil>- (32 / 45) :: real\<rceil>"
    and "ytile (deg2num 0 (- 181) 8) = \<lfloor>128 :: real\<rfloor>"
    unfolding x y by simp_all
  then show ?thesis using dx dy by simp
qed

text \<open>The row value at latitude 89 and zoom 0: the tangent of 89 degrees lies between
  \<open>sinh 4\<close> and \<open>sinh 9\<close>, so the value lies strictly between -1 and 0.\<close>

lemma sinh_4_9: "sinh (4 :: real) < 45" "100 < sinh (9 :: real)"
proof -
  define p4 p9 q4 q9 where "p4 = exp (4 :: real)" and "p9 = exp (9 :: real)"
    and "q4 = exp (- 4 :: real)" and "q9 = exp (- 9 :: real)"
  have e3: "exp (1 :: real) \<le> 3" by (rule exp_le)
  have e2: "(2 :: real) \<le> exp 1" using exp_ge_add_one_self [of "1 :: real"] by simp
  have "p4 = exp 1 ^ 4"
    using exp_of_nat_mult [of 4 "1 :: real"] by (simp add: p4_def)
  also have "\<dots> \<le> 3 ^ 4" using e3 by (intro power_mono) simp_all
  finally have up: "p4 \<le> 81" by simp
  have "(2 :: real) ^ 9 \<le> exp 1 ^ 9" using e2 by (intro power_mono) simp_all
  also have "\<dots> = p9"
    using exp_of_nat_mult [of 9 "1 :: real"] by (simp add: p9_def)
  finally have low: "512 \<le> p9" by simp
  have q: "0 < q4" "q9 < 1" by (simp_all add: q4_def q9_def)
  have s4: "sinh (4 :: real) = (p4 - q4) / 2" and s9: "sinh (9 :: real) = (p9 - q9) / 2"
    by (simp_all add: sinh_def p4_def p9_def q4_def q9_def)
  from up q(1) show "sinh (4 :: real) < 45" unfolding s4 by simp
  from low q(2) show "100 < sinh (9 :: real)" unfolding s9 by simp
qed

lemma tan_89_degrees: "45 < tan (89 * (pi / 180))" "tan (89 * (pi / 180)) < 100"
proof -
  let ?x = "pi / 180"
  have x: "1 / 100 < ?x" "?x < 6074 / 273375" "?x < pi / 2"
    using pi_seven_digits by simp_all
  have "arctan (1 / 100 :: real) \<le> (\<Sum>k<2 * 0 + 1. (- 1) ^ k * (1 / real (k * 2 + 1) * (1 / 100) ^ (k * 2 + 1)))"
    by (rule arctan_between(2)) simp_all
  then have "arctan (1 / 100 :: real) \<le> 1 / 100" by simp
  with x(1) have "arctan (1 / 100 :: real) < ?x" by linarith
  then have "tan (arctan (1 / 100 :: real)) < tan ?x"
    using arctan_lbound [of "1 / 100"] x(3) by (intro tan_monotone) simp_all
  then have low: "1 / 100 < tan ?x" by (simp add: tan_arctan)
  have "(\<Sum>k<2 * 1. (- 1) ^ k * (1 / real (k * 2 + 1) * (1 / 45) ^ (k * 2 + 1))) \<le> arctan (1 / 45 :: real)"
    by (rule arctan_between(1)) simp_all
  then have "6074 / 273375 \<le> arctan (1 / 45 :: real)" by (simp add: eval_nat_numeral)
  with x(2) have "?x < arctan (1 / 45 :: real)" by linarith
  then have "tan ?x < tan (arctan (1 / 45 :: real))"
    using arctan_ubound [of "1 / 45"] by (intro tan_monotone) simp_all
  then have up: "tan ?x < 1 / 45" by (simp add: tan_arctan)
  have "89 * ?x = pi / 2 - ?x" by simp
  then have t: "tan (89 * ?x) = 1 / tan ?x" by (simp only: tan_inverse)
  from low up show "45 < tan (89 * ?x)" unfolding t by (simp add: field_simps)
  from low up show "tan (89 * ?x) < 100" unfolding t by (simp add: field_simps)
qed

lemma ytile_real_89: "- 1 < ytile_real 89 0" "ytile_real 89 0 < - (1 / 10)"
proof -
  let ?a = "arsinh (tan (89 * (pi / 180)))"
  have "sinh (4 :: real) < sinh ?a"
    using sinh_4_9(1) tan_89_degrees(1) by simp
  then have low: "4 < ?a" by (simp only: sinh_real_less_iff)
  have "sinh ?a < sinh (9 :: real)"
    using sinh_4_9(2) tan_89_degrees(2) by simp
  then have up: "?a < 9" by (simp only: sinh_real_less_iff)
  have "?a / pi < 9 / 3" using low up pi_seven_digits(1)
    by (intro frac_less) simp_all
  then show "- 1 < ytile_real 89 0" by (simp add: ytile_real_def)
  have "4 / 3.2 < ?a / pi" using low pi_seven_digits(2)
    by (intro frac_less) simp_all
  then show "ytile_real 89 0 < - (1 / 10)" by (simp add: ytile_real_def)
qed

text \<open>
  C2 as stated fails. At latitude 0, longitude -181 and zoom 8 the real value for the
  column is \<open>-32/45\<close>, whose floor is -1, and \<open>deg2num\<close> gives column 0. At
  latitude 89, longitude 0 and zoom 0 the real value for the row is negative and above
  -1, its floor is -1, and \<open>deg2num\<close> gives row 0.
\<close>

theorem deg2num_floor_counterexample:
  "xtile (deg2num 0 (- 181) 8) = 0 \<and> \<lfloor>xtile_real (- 181) 8\<rfloor> = - 1
   \<and> ytile (deg2num 89 0 0) = 0 \<and> \<lfloor>ytile_real 89 0\<rfloor> = - 1"
proof -
  have column: "xtile (deg2num 0 (- 181) 8) = 0 \<and> \<lfloor>xtile_real (- 181) 8\<rfloor> = - 1"
    by (simp add: deg2num_def parseInt_def decimal_notation_def xtile_real_def)
  have dec: "decimal_notation (ytile_real 89 0)"
    using ytile_real_89 by (simp add: decimal_notation_def)
  have "\<lfloor>\<bar>ytile_real 89 0\<bar>\<rfloor> = 0"
    using ytile_real_89 by (simp add: floor_eq_iff)
  then have "parseInt (ytile_real 89 0) = 0"
    using dec ytile_real_89 by (simp add: parseInt_def)
  moreover have "\<lfloor>ytile_real 89 0\<rfloor> = - 1"
    using ytile_real_89 by (simp add: floor_eq_iff)
  ultimately show ?thesis using column by (simp add: deg2num_parts)
qed

section \<open>The loop of the directory callback\<close>

text \<open>Rounding to a double, evaluated: within a binade the spacing is known, and a
  multiple of the spacing is its own rounding.\<close>

lemma binade_eq:
  assumes "2 powr of_int e \<le> \<bar>x\<bar>" and "\<bar>x\<bar> < 2 powr of_int (e + 1)"
  shows "binade x = max e (- 1022)"
proof -
  have "0 < (2 :: real) powr of_int e" by simp
  with assms(1) have pos: "0 < \<bar>x\<bar>" by linarith
  have "\<bar>x\<bar> < 2 powr (of_int e + 1)" using assms(2) by simp
  with assms(1) pos have "\<lfloor>log 2 \<bar>x\<bar>\<rfloor> = e"
    by (simp add: floor_log_eq_powr_iff)
  then show ?thesis by (simp add: binade_def)
qed

lemma to_double_binade:
  assumes "2 powr of_int e \<le> \<bar>x\<bar>" and "\<bar>x\<bar> < 2 powr of_int (e + 1)"
  shows "to_double x =
     (let u = 2 powr of_int (max e (- 1022) - 52); y = of_int (round_even (x / u)) * u in
      if 2 ^ 1024 \<le> \<bar>y\<bar> then (if x < 0 then NegInfinity else PosInfinity)
      else if y = 0 then (if x < 0 then NegZero else Finite 0)
      else Finite y)"
  by (simp add: to_double_def ulp_def binade_eq [OF assms] Let_def)

lemma round_even_of_int: "round_even (of_int k) = k"
  by (simp add: round_even_def)

lemma to_double_1: "to_double 1 = Finite 1"
proof -
  have "round_even (1 / (1 / 2 ^ 52)) = 2 ^ 52"
    using round_even_of_int [of "2 ^ 52"] by simp
  then show ?thesis
    using to_double_binade [of 0 1] by (simp add: Let_def powr_neg_numeral)
qed

lemma to_double_2: "to_double 2 = Finite 2"
proof -
  have "round_even (2 / (1 / 2 ^ 51)) = 2 ^ 52"
    using round_even_of_int [of "2 ^ 52"] by simp
  then show ?thesis
    using to_double_binade [of 1 2] by (simp add: Let_def powr_neg_numeral)
qed

lemma to_double_minus_1: "to_double (- 1) = Finite (- 1)"
proof -
  have "round_even (- 1 / (1 / 2 ^ 52)) = - (2 ^ 52)"
    using round_even_of_int [of "- (2 ^ 52)"] by simp
  then show ?thesis
    using to_double_binade [of 0 "- 1"] by (simp add: Let_def powr_neg_numeral)
qed

lemma to_double_third: "to_double (1 / (6004799503160661 / 2 ^ 54)) = Finite 3"
proof -
  have "round_even (1 / (6004799503160661 / 2 ^ 54) / (1 / 2 ^ 51)) = 3 * 2 ^ 51"
    by (simp add: round_even_def Let_def)
  then show ?thesis
    using to_double_binade [of 1 "1 / (6004799503160661 / 2 ^ 54)"]
    by (simp add: Let_def powr_neg_numeral)
qed

lemma to_double_overflow: "to_double (1 / (1 / 2 ^ 1074)) = PosInfinity"
proof -
  have "round_even (2 ^ 1074 / 2 ^ 1022) = 2 ^ 52"
    using round_even_of_int [of "2 ^ 52"] by simp
  then show ?thesis
    using to_double_binade [of 1074 "1 / (1 / 2 ^ 1074)"]
    by (simp add: Let_def powr_neg_numeral)
qed

text \<open>The loop condition \<open>i < stationCount\<close> on a finite count holds for the indices
  below the count rounded up.\<close>

lemma js_less_finite: "js_less i (Finite c) \<longleftrightarrow> i < nat \<lceil>c\<rceil>"
proof
  assume "js_less i (Finite c)"
  then have "real i < c" by simp
  also have "c \<le> of_int \<lceil>c\<rceil>" by (rule le_of_int_ceiling)
  finally have "int i < \<lceil>c\<rceil>" by linarith
  then show "i < nat \<lceil>c\<rceil>" by linarith
next
  assume "i < nat \<lceil>c\<rceil>"
  then have "int i < \<lceil>c\<rceil>" by linarith
  then have "of_int (int i) < c" by (simp only: less_ceiling_iff)
  then show "js_less i (Finite c)" by simp
qed

lemma for_loop_enough:
  assumes bound: "\<And>k. js_less k b \<longleftrightarrow> k < n" and small: "n \<le> 2 ^ 53"
  shows "n - i \<le> fuel \<Longrightarrow> for_loop fuel b i body = Some (map body [i ..< n])"
proof (induction fuel arbitrary: i)
  case 0
  then show ?case by (simp add: bound)
next
  case (Suc fuel)
  show ?case
  proof (cases "i < n")
    case True
    with small have next_i: "js_inc i = Suc i" by (simp add: js_inc_def)
    from True Suc.prems have "n - Suc i \<le> fuel" by simp
    then have "for_loop fuel b (Suc i) body = Some (map body [Suc i ..< n])"
      by (rule Suc.IH)
    with True show ?thesis
      by (simp add: bound next_i upt_conv_Cons)
  next
    case False
    then show ?thesis by (simp add: bound)
  qed
qed

lemma for_loop_short:
  assumes bound: "\<And>k. js_less k b \<longleftrightarrow> k < n" and small: "n \<le> 2 ^ 53"
  shows "fuel < n - i \<Longrightarrow> for_loop fuel b i body = None"
proof (induction fuel arbitrary: i)
  case 0
  then show ?case by (simp add: bound)
next
  case (Suc fuel)
  then have less: "fuel < n - Suc i" and "i < n" by simp_all
  with small have "js_inc i = Suc i" by (simp add: js_inc_def)
  with less \<open>i < n\<close> Suc.IH [of "Suc i"] show ?case
    by (simp add: bound)
qed

lemma for_loop_stuck:
  assumes always: "\<And>k. k \<le> 2 ^ 53 \<Longrightarrow> js_less k b"
  shows "i \<le> 2 ^ 53 \<Longrightarrow> for_loop fuel b i body = None"
proof (induction fuel arbitrary: i)
  case 0
  then show ?case by (simp add: always)
next
  case (Suc fuel)
  then have "js_inc i \<le> 2 ^ 53" by (simp add: js_inc_def)
  then have "for_loop fuel b (js_inc i) body = None" by (rule Suc.IH)
  with Suc.prems show ?case by (simp add: always)
qed

lemma for_loop_exit: "\<not> js_less i b \<Longrightarrow> for_loop fuel b i body = Some []"
  by (cases fuel) simp_all

lemma decode_stations_eq:
  "decode_stations fuel d =
     (case stationCount d of
        Finite c \<Rightarrow>
          if 2 ^ 53 < c then None
          else if fuel < nat \<lceil>c\<rceil> then None
          else Some (map (\<lambda>i. at_index (data d) (i * 7)) [0 ..< nat \<lceil>c\<rceil>])
      | NegZero \<Rightarrow> Some []
      | NaN \<Rightarrow> Some []
      | PosInfinity \<Rightarrow> None
      | NegInfinity \<Rightarrow> Some [])"
proof (cases "stationCount d")
  case (Finite c)
  let ?n = "nat \<lceil>c\<rceil>"
  show ?thesis
  proof (cases "2 ^ 53 < c")
    case True
    have "js_less k (Finite c)" if "k \<le> 2 ^ 53" for k
    proof -
      from that have "real k \<le> 2 ^ 53" by (metis of_nat_le_iff of_nat_numeral of_nat_power)
      with True show ?thesis by simp
    qed
    then have "for_loop fuel (Finite c) 0 (\<lambda>i. at_index (data d) (i * 7)) = None"
      by (intro for_loop_stuck) simp_all
    with True Finite show ?thesis by (simp add: decode_stations_def)
  next
    case False
    then have "\<lceil>c\<rceil> \<le> 2 ^ 53" by (simp add: ceiling_le_iff)
    then have small: "?n \<le> 2 ^ 53" by (simp add: nat_le_iff)
    have bound: "\<And>k. js_less k (stationCount d) \<longleftrightarrow> k < ?n"
      unfolding Finite by (rule js_less_finite)
    show ?thesis
    proof (cases "fuel < ?n")
      case True
      then have "fuel < ?n - 0" by arith
      then have "for_loop fuel (stationCount d) 0 (\<lambda>i. at_index (data d) (i * 7)) = None"
        by (rule for_loop_short [OF bound small])
      with True False Finite show ?thesis by (simp add: decode_stations_def)
    next
      case enough: False
      then have "?n - 0 \<le> fuel" by arith
      then have "for_loop fuel (stationCount d) 0 (\<lambda>i. at_index (data d) (i * 7)) =
          Some (map (\<lambda>i. at_index (data d) (i * 7)) [0 ..< ?n])"
        by (rule for_loop_enough [OF bound small])
      with enough False Finite show ?thesis by (simp add: decode_stations_def)
    qed
  qed
next
  case PosInfinity
  have "for_loop fuel PosInfinity 0 (\<lambda>i. at_index (data d) (i * 7)) = None"
    by (intro for_loop_stuck) simp_all
  with PosInfinity show ?thesis by (simp add: decode_stations_def)
qed (simp_all add: decode_stations_def for_loop_exit)

lemma iterations_eq:
  "iterations fuel d =
     (case stationCount d of
        Finite c \<Rightarrow>
          if 2 ^ 53 < c then None
          else if fuel < nat \<lceil>c\<rceil> then None else Some (nat \<lceil>c\<rceil>)
      | NegZero \<Rightarrow> Some 0
      | NaN \<Rightarrow> Some 0
      | PosInfinity \<Rightarrow> None
      | NegInfinity \<Rightarrow> Some 0)"
  by (simp add: iterations_def decode_stations_eq split: jsnumber.splits)

lemma to_double_2_pow_60: "to_double (1 / (1 / 2 ^ 60)) = Finite (2 ^ 60)"
proof -
  have "round_even (2 ^ 60 / 2 ^ 8) = 2 ^ 52"
    using round_even_of_int [of "2 ^ 52"] by simp
  then show ?thesis
    using to_double_binade [of 60 "1 / (1 / 2 ^ 60)"]
    by (simp add: Let_def)
qed

text \<open>The count of a listing of one element for some widths: -1, the negative zero, the
  smallest positive double \<open>2^-1074\<close>, the double nearest to one third and \<open>2^-60\<close>;
  and the count of an empty listing for width 0.\<close>

lemma count_examples:
  "stationCount \<lparr>items = Finite (- 1), data = [JStr ''A'']\<rparr> = Finite (- 1)"
  "stationCount \<lparr>items = Finite 0, data = []\<rparr> = NaN"
  "stationCount \<lparr>items = NegZero, data = [JStr ''A'']\<rparr> = NegInfinity"
  "stationCount \<lparr>items = Finite (1 / 2 ^ 1074), data = [JStr ''A'']\<rparr> = PosInfinity"
  "stationCount \<lparr>items = Finite (6004799503160661 / 2 ^ 54), data = [JStr ''A'']\<rparr> = Finite 3"
  "stationCount \<lparr>items = Finite (1 / 2 ^ 60), data = [JStr ''A'']\<rparr> = Finite (2 ^ 60)"
  using to_double_minus_1 to_double_overflow to_double_third to_double_2_pow_60
  by (simp_all add: stationCount_def)

text \<open>
  C10 (as amended). The loop runs forever exactly when the computed count, the double
  quotient \<open>stations.length / data.items\<close>, is \<open>+Infinity\<close> or a finite number above
  \<open>2^53\<close> (where the counter stops growing); any other finite count of either sign,
  a NaN and \<open>-Infinity\<close> end it. When it ends on a finite count it has run its body
  exactly \<open>ceil(count)\<close> times (less fuel than that does not reach the exit), which is
  no time for a count that is not positive; on the negative zero, NaN and \<open>-Infinity\<close>
  it runs no time. A positive zero width gives \<open>+Infinity\<close> over a listing that is not
  empty, a negative zero width gives \<open>-Infinity\<close>, and a zero width over an empty
  listing or a NaN width gives NaN.
\<close>

theorem decode_loop_iterations:
  "iterations fuel d =
     (case stationCount d of
        Finite c \<Rightarrow>
          if 2 ^ 53 < c then None
          else if fuel < nat \<lceil>c\<rceil> then None else Some (nat \<lceil>c\<rceil>)
      | NegZero \<Rightarrow> Some 0
      | NaN \<Rightarrow> Some 0
      | PosInfinity \<Rightarrow> None
      | NegInfinity \<Rightarrow> Some 0)
   \<and> ((\<exists>k. iterations k d \<noteq> None) \<longleftrightarrow>
        (case stationCount d of
           Finite c \<Rightarrow> c \<le> 2 ^ 53
         | NegZero \<Rightarrow> True
         | NaN \<Rightarrow> True
         | PosInfinity \<Rightarrow> False
         | NegInfinity \<Rightarrow> True))
   \<and> stationCount \<lparr>items = Finite 0, data = x # xs\<rparr> = PosInfinity
   \<and> stationCount \<lparr>items = NegZero, data = x # xs\<rparr> = NegInfinity
   \<and> stationCount \<lparr>items = Finite 0, data = []\<rparr> = NaN
   \<and> stationCount \<lparr>items = NegZero, data = []\<rparr> = NaN
   \<and> stationCount \<lparr>items = NaN, data = ys\<rparr> = NaN"
proof -
  have ends: "(\<exists>k. iterations k d \<noteq> None) \<longleftrightarrow>
        (case stationCount d of
           Finite c \<Rightarrow> c \<le> 2 ^ 53
         | NegZero \<Rightarrow> True
         | NaN \<Rightarrow> True
         | PosInfinity \<Rightarrow> False
         | NegInfinity \<Rightarrow> True)"
  proof (cases "stationCount d")
    case (Finite c)
    show ?thesis
    proof (cases "2 ^ 53 < c")
      case True
      with Finite show ?thesis by (simp add: iterations_eq)
    next
      case False
      with Finite have "iterations (nat \<lceil>c\<rceil>) d \<noteq> None" by (simp add: iterations_eq)
      then have "\<exists>k. iterations k d \<noteq> None" ..
      with False Finite show ?thesis by simp
    qed
  qed (simp_all add: iterations_eq)
  have counts: "stationCount \<lparr>items = Finite 0, data = x # xs\<rparr> = PosInfinity
      \<and> stationCount \<lparr>items = NegZero, data = x # xs\<rparr> = NegInfinity
      \<and> stationCount \<lparr>items = Finite 0, data = []\<rparr> = NaN
      \<and> stationCount \<lparr>items = NegZero, data = []\<rparr> = NaN
      \<and> stationCount \<lparr>items = NaN, data = ys\<rparr> = NaN"
    by (simp add: stationCount_def)
  from iterations_eq [of fuel d] ends counts show ?thesis by blast
qed

theorem decode_loop_iterations_witness:
  "iterations 0 \<lparr>items = NegZero, data = [JStr ''A'']\<rparr> = Some 0
   \<and> iterations 1000 \<lparr>items = Finite (1 / 2 ^ 1074), data = [JStr ''A'']\<rparr> = None
   \<and> iterations 1000 \<lparr>items = Finite (1 / 2 ^ 60), data = [JStr ''A'']\<rparr> = None
   \<and> iterations 2 \<lparr>items = Finite (6004799503160661 / 2 ^ 54), data = [JStr ''A'']\<rparr> = None
   \<and> iterations 3 \<lparr>items = Finite (6004799503160661 / 2 ^ 54), data = [JStr ''A'']\<rparr> = Some 3"
  using decode_loop_iterations [of 0 "\<lparr>items = NegZero, data = [JStr ''A'']\<rparr>"]
    decode_loop_iterations [of 1000 "\<lparr>items = Finite (1 / 2 ^ 1074), data = [JStr ''A'']\<rparr>"]
    decode_loop_iterations [of 1000 "\<lparr>items = Finite (1 / 2 ^ 60), data = [JStr ''A'']\<rparr>"]
    decode_loop_iterations [of 2 "\<lparr>items = Finite (6004799503160661 / 2 ^ 54), data = [JStr ''A'']\<rparr>"]
    decode_loop_iterations [of 3 "\<lparr>items = Finite (6004799503160661 / 2 ^ 54), data = [JStr ''A'']\<rparr>"]
  unfolding count_examples by simp

text \<open>
  C10 as stated fails. With width -1 and a listing of one element the loop ends (without
  running its body) although the width is not positive and the listing is not empty. With
  width 0 and an empty listing the loop ends although the count is NaN, which is not a
  finite number. With the positive width \<open>6004799503160661 / 2^54\<close>, the double
  nearest to one third, and a listing of one element the quotient rounds to the double 3
  and the body runs 3 times, while the exact quotient rounded up is 4.
\<close>

theorem decode_termination_counterexample:
  "iterations 0 \<lparr>items = Finite (- 1), data = [JStr ''A'']\<rparr> = Some 0
   \<and> stationCount \<lparr>items = Finite (- 1), data = [JStr ''A'']\<rparr> = Finite (- 1)
   \<and> data \<lparr>items = Finite (- 1), data = [JStr ''A'']\<rparr> \<noteq> []
   \<and> iterations 0 \<lparr>items = Finite 0, data = []\<rparr> = Some 0
   \<and> stationCount \<lparr>items = Finite 0, data = []\<rparr> = NaN
   \<and> iterations 3 \<lparr>items = Finite (6004799503160661 / 2 ^ 54), data = [JStr ''A'']\<rparr> = Some 3
   \<and> nat \<lceil>real (length [JStr ''A'']) / (6004799503160661 / 2 ^ 54)\<rceil> = 4"
  unfolding iterations_eq count_examples by simp

text \<open>
  C7. For a directory of width 7 whose listing has 14 elements the loop hands exactly
  two stations to \<open>retrieveStationData\<close>: the elements at offsets 0 and 7.
\<close>

theorem decode_width_7_length_14:
  "length stations = 14 \<Longrightarrow> 2 \<le> fuel \<Longrightarrow>
     decode_stations fuel \<lparr>items = Finite 7, data = stations\<rparr> = Some [stations ! 0, stations ! 7]"
proof -
  assume len: "length stations = 14" and fuel: "2 \<le> fuel"
  have "stationCount \<lparr>items = Finite 7, data = stations\<rparr> = Finite 2"
    using len to_double_2 by (simp add: stationCount_def)
  moreover have "[0 ..< 2] = [0, Suc 0]" by (simp add: upt_rec)
  ultimately show ?thesis
    using len fuel by (simp add: decode_stations_eq at_index_def)
qed

theorem decode_width_7_length_14_witness:
  "length [JStr ''A'', JNum 1, JNum 2, JNum 3, JNum 4, JNum 5, JNum 6,
           JStr ''B'', JNum 1, JNum 2, JNum 3, JNum 4, JNum 5, JNum 6] = 14 \<and> (2 :: nat) \<le> 2 \<and>
   decode_stations 2 \<lparr>items = Finite 7, data =
          [JStr ''A'', JNum 1, JNum 2, JNum 3, JNum 4, JNum 5, JNum 6,
           JStr ''B'', JNum 1, JNum 2, JNum 3, JNum 4, JNum 5, JNum 6]\<rparr> = Some [JStr ''A'', JStr ''B'']"
  using decode_width_7_length_14 [of "[JStr ''A'', JNum 1, JNum 2, JNum 3, JNum 4, JNum 5, JNum 6,
           JStr ''B'', JNum 1, JNum 2, JNum 3, JNum 4, JNum 5, JNum 6]" 2]
  by simp

text \<open>
  C1 at a width other than 7. With \<open>items = 8\<close> and two tuples of eight fields the
  count is 2, and the second station read is \<open>data[7]\<close>, the last field of the
  first tuple, not \<open>data[1 * 8]\<close>, the identifier of the second: the index is
  \<open>i * 7\<close> whatever the width.
\<close>

theorem decode_stride_is_literal_7:
  "decode_stations 2 \<lparr>items = Finite 8, data =
      [JStr ''A'', JNum 1, JNum 2, JNum 3, JNum 4, JNum 5, JNum 6, JNum 7,
       JStr ''B'', JNum 1, JNum 2, JNum 3, JNum 4, JNum 5, JNum 6, JNum 7]\<rparr>
     = Some [JStr ''A'', JNum 7]
   \<and> at_index [JStr ''A'', JNum 1, JNum 2, JNum 3, JNum 4, JNum 5, JNum 6, JNum 7,
       JStr ''B'', JNum 1, JNum 2, JNum 3, JNum 4, JNum 5, JNum 6, JNum 7] (1 * 8) = JStr ''B''"
proof -
  have "stationCount \<lparr>items = Finite 8, data =
      [JStr ''A'', JNum 1, JNum 2, JNum 3, JNum 4, JNum 5, JNum 6, JNum 7,
       JStr ''B'', JNum 1, JNum 2, JNum 3, JNum 4, JNum 5, JNum 6, JNum 7]\<rparr> = Finite 2"
    using to_double_2 by (simp add: stationCount_def)
  moreover have "[0 ..< 2] = [0, Suc 0]" by (simp add: upt_rec)
  ultimately show ?thesis
    by (simp add: decode_stations_eq at_index_def)
qed

section \<open>Excluded stations\<close>

lemma requests_append: "requests (xs @ ys) = requests xs @ requests ys"
  by (simp add: requests_def)

lemma requests_station_callback: "requests (station_callback st r) = []"
  by (cases r; cases st) (simp_all add: station_callback_def requests_def)

lemma requests_retrieveStationData:
  "requests (fst (retrieveStationData ex net st)) = (if array_includes ex st then [] else [StationUrl st])"
  "requests (snd (retrieveStationData ex net st)) = []"
  by (simp_all add: retrieveStationData_def requests_station_callback) (simp_all add: requests_def)

lemma requests_of_stations:
  "requests (concat (map (fst \<circ> retrieveStationData ex net) sts)) =
     map StationUrl (filter (\<lambda>st. \<not> array_includes ex st) sts)"
  "requests (concat (map (snd \<circ> retrieveStationData ex net) sts)) = []"
  by (induction sts) (simp_all add: requests_append requests_retrieveStationData, simp_all add: requests_def)

lemma requests_directory_callback:
  "map_option requests (directory_callback fuel ex net (Reply 200 d)) =
     map_option (\<lambda>sts. map StationUrl (filter (\<lambda>st. \<not> array_includes ex st) sts))
       (decode_stations fuel d)"
  by (cases "decode_stations fuel d")
    (simp_all add: directory_callback_def Let_def requests_append requests_of_stations)

text \<open>
  C5. For a station identifier that is in the exclusion list (an equal string, case
  included) \<open>retrieveStationData\<close> issues no request and publishes nothing, during the
  call and after it. For an identifier that is not in the list it issues the request for
  that station and publishes the values of a reply with status 200. Over one directory
  callback the requests are those for the decoded stations that are not in the list.
\<close>

theorem excluded_station_not_fetched:
  "requests (fst (retrieveStationData ex net (JStr s)) @ snd (retrieveStationData ex net (JStr s))) =
     (if s \<in> set ex then [] else [StationUrl (JStr s)])
   \<and> published (fst (retrieveStationData ex net (JStr s)) @ snd (retrieveStationData ex net (JStr s))) =
     (if s \<in> set ex then []
      else (case net (JStr s) of
              Reply statusCode body \<Rightarrow>
                if statusCode = 200 then [station_values (toLowerCase s) body] else []
            | TransportError \<Rightarrow> []))
   \<and> map_option requests (directory_callback fuel ex net (Reply 200 d)) =
       map_option (\<lambda>sts. map StationUrl (filter (\<lambda>st. \<not> array_includes ex st) sts))
         (decode_stations fuel d)"
proof -
  have one: "requests (fst (retrieveStationData ex net (JStr s)) @ snd (retrieveStationData ex net (JStr s))) =
     (if s \<in> set ex then [] else [StationUrl (JStr s)])"
    by (simp add: requests_append requests_retrieveStationData array_includes_def)
  have two: "published (fst (retrieveStationData ex net (JStr s)) @ snd (retrieveStationData ex net (JStr s))) =
     (if s \<in> set ex then []
      else (case net (JStr s) of
              Reply statusCode body \<Rightarrow>
                if statusCode = 200 then [station_values (toLowerCase s) body] else []
            | TransportError \<Rightarrow> []))"
    by (simp add: retrieveStationData_def array_includes_def station_callback_def published_def
        split: reply.splits)
  have three: "map_option requests (directory_callback fuel ex net (Reply 200 d)) =
       map_option (\<lambda>sts. map StationUrl (filter (\<lambda>st. \<not> array_includes ex st) sts))
         (decode_stations fuel d)"
    by (rule requests_directory_callback)
  from one two three show ?thesis by blast
qed

theorem excluded_station_not_fetched_witness:
  "requests (fst (retrieveStationData [''ABC''] (\<lambda>st. TransportError) (JStr ''ABC''))
           @ snd (retrieveStationData [''ABC''] (\<lambda>st. TransportError) (JStr ''ABC''))) = []
   \<and> published (fst (retrieveStationData [''ABC''] (\<lambda>st. TransportError) (JStr ''ABC''))
           @ snd (retrieveStationData [''ABC''] (\<lambda>st. TransportError) (JStr ''ABC''))) = []
   \<and> requests (fst (retrieveStationData [''ABC''] (\<lambda>st. TransportError) (JStr ''abc''))
           @ snd (retrieveStationData [''ABC''] (\<lambda>st. TransportError) (JStr ''abc''))) =
       [StationUrl (JStr ''abc'')]
   \<and> map_option requests (directory_callback 1 [''ABC''] (\<lambda>st. TransportError)
         (Reply 200 \<lparr>items = Finite 7, data = [JStr ''ABC'', JNum 1, JNum 2, JNum 3, JNum 4, JNum 5, JNum 6]\<rparr>))
       = Some []"
proof -
  have dec: "decode_stations 1 \<lparr>items = Finite 7, data = [JStr ''ABC'', JNum 1, JNum 2, JNum 3, JNum 4, JNum 5, JNum 6]\<rparr>
      = Some [JStr ''ABC'']"
    using to_double_1 by (simp add: decode_stations_eq stationCount_def at_index_def)
  from excluded_station_not_fetched [of "[''ABC'']" "\<lambda>st. TransportError" "''ABC''" 1
        "\<lparr>items = Finite 7, data = [JStr ''ABC'', JNum 1, JNum 2, JNum 3, JNum 4, JNum 5, JNum 6]\<rparr>"]
      excluded_station_not_fetched [of "[''ABC'']" "\<lambda>st. TransportError" "''abc''" 1
        "\<lparr>items = Finite 7, data = [JStr ''ABC'', JNum 1, JNum 2, JNum 3, JNum 4, JNum 5, JNum 6]\<rparr>"]
  show ?thesis
    unfolding dec by (simp add: array_includes_def)
qed

section \<open>A cycle and the position\<close>

text \<open>With a position and a directory reply of status 200, the requests of a cycle are
  the directory of the tile and then the decoded stations that are not excluded, and the
  deltas are those of the station callbacks of these stations.\<close>

lemma published_append: "published (xs @ ys) = published xs @ published ys"
  by (simp add: published_def)

lemma published_retrieveStationData:
  "published (fst (retrieveStationData ex net st)) = []"
  "published (snd (retrieveStationData ex net st)) =
     (if array_includes ex st then [] else published (station_callback st (net st)))"
  by (simp_all add: retrieveStationData_def) (simp_all add: published_def)

lemma published_of_stations:
  "published (concat (map (fst \<circ> retrieveStationData ex net) sts)) = []"
  "published (concat (map (snd \<circ> retrieveStationData ex net) sts)) =
     concat (map (\<lambda>st. published (station_callback st (net st)))
       (filter (\<lambda>st. \<not> array_includes ex st) sts))"
  by (induction sts) (simp_all add: published_append published_retrieveStationData, simp_all add: published_def)

lemma published_directory_callback:
  "map_option published (directory_callback fuel ex net (Reply 200 d)) =
     map_option
       (\<lambda>sts. concat (map (\<lambda>st. published (station_callback st (net st)))
                 (filter (\<lambda>st. \<not> array_includes ex st) sts)))
       (decode_stations fuel d)"
  by (cases "decode_stations fuel d")
    (simp_all add: directory_callback_def Let_def published_append published_of_stations)

lemma effects_after_directory_request:
  "requests ([Debug m, HttpGet u] @ es) = u # requests es"
  "published ([Debug m, HttpGet u] @ es) = published es"
  by (simp_all add: requests_def published_def)

lemma cycle_with_position:
  assumes "tiles_net (TilesUrl 8 (xtile (deg2num (latitude v) (longitude v) 8))
                                 (ytile (deg2num (latitude v) (longitude v) 8))) = Reply 200 d"
  shows "map_option requests
           (checkAndPublishObservations fuel ex tiles_net net (Some \<lparr>node_value = Some v\<rparr>)) =
         map_option
           (\<lambda>sts. TilesUrl 8 (xtile (deg2num (latitude v) (longitude v) 8))
                              (ytile (deg2num (latitude v) (longitude v) 8))
                   # map StationUrl (filter (\<lambda>st. \<not> array_includes ex st) sts))
           (decode_stations fuel d)"
    and "map_option published
           (checkAndPublishObservations fuel ex tiles_net net (Some \<lparr>node_value = Some v\<rparr>)) =
         map_option
           (\<lambda>sts. concat (map (\<lambda>st. published (station_callback st (net st)))
                     (filter (\<lambda>st. \<not> array_includes ex st) sts)))
           (decode_stations fuel d)"
proof -
  let ?u = "TilesUrl 8 (xtile (deg2num (latitude v) (longitude v) 8))
                       (ytile (deg2num (latitude v) (longitude v) 8))"
  have run: "checkAndPublishObservations fuel ex tiles_net net (Some \<lparr>node_value = Some v\<rparr>) =
      map_option (\<lambda>es. [Debug (RetrievingStationsVia ?u), HttpGet ?u] @ es)
        (directory_callback fuel ex net (Reply 200 d))"
    using assms by (simp add: checkAndPublishObservations_def retrieveObservations_def Let_def)
  have "map_option requests
           (checkAndPublishObservations fuel ex tiles_net net (Some \<lparr>node_value = Some v\<rparr>)) =
        map_option ((#) ?u) (map_option requests (directory_callback fuel ex net (Reply 200 d)))"
    unfolding run by (simp add: option.map_comp comp_def effects_after_directory_request del: append.simps)
  then show "map_option requests
           (checkAndPublishObservations fuel ex tiles_net net (Some \<lparr>node_value = Some v\<rparr>)) =
         map_option (\<lambda>sts. ?u # map StationUrl (filter (\<lambda>st. \<not> array_includes ex st) sts))
           (decode_stations fuel d)"
    by (simp add: requests_directory_callback option.map_comp comp_def)
  have "map_option published
           (checkAndPublishObservations fuel ex tiles_net net (Some \<lparr>node_value = Some v\<rparr>)) =
        map_option published (directory_callback fuel ex net (Reply 200 d))"
    unfolding run
    by (simp add: option.map_comp comp_def effects_after_directory_request del: append.simps)
  then show "map_option published
           (checkAndPublishObservations fuel ex tiles_net net (Some \<lparr>node_value = Some v\<rparr>)) =
         map_option
           (\<lambda>sts. concat (map (\<lambda>st. published (station_callback st (net st)))
                     (filter (\<lambda>st. \<not> array_includes ex st) sts)))
           (decode_stations fuel d)"
    by (simp add: published_directory_callback)
qed

text \<open>
  C8 at a node without a value. When \<open>getSelfPath\<close> gives a node whose \<open>value\<close> is
  null, no position is available, and the cycle is not skipped: reading
  \<open>position.value.latitude\<close> throws a TypeError. Only a falsy result is skipped with
  the debug line.
\<close>

theorem cycle_throws_without_value:
  "checkAndPublishObservations fuel ex tiles_net net (Some \<lparr>node_value = None\<rparr>) = Some [TypeError]
   \<and> checkAndPublishObservations fuel ex tiles_net net None = Some [Debug PositionMissing]"
  by (simp add: checkAndPublishObservations_def)

section \<open>Stopping the plugin\<close>

lemma fire_next_has_interval:
  assumes "has_interval s"
  shows "has_interval (fire_next s)"
proof -
  from assms obtain v where armed: "v \<in> set (timers s)" and v: "is_interval v"
    by (auto simp: has_interval_def list_ex_iff)
  then have nonempty: "timers s \<noteq> []" by auto
  define t where "t = arg_min_list due (timers s)"
  have new: "timers (fire_next s) = remove1 t (timers s) @ rearm t"
    using nonempty by (simp add: fire_next_def t_def Let_def)
  show ?thesis
  proof (cases t)
    case (Timeout u)
    with v have "v \<noteq> t" by auto
    with armed have "v \<in> set (remove1 t (timers s))" by simp
    with v show ?thesis unfolding has_interval_def new list_ex_iff by auto
  next
    case (Interval u period)
    then show ?thesis unfolding has_interval_def new by simp
  qed
qed

lemma fire_next_calls:
  "has_interval s \<Longrightarrow> length (calls (fire_next s)) = Suc (length (calls s))"
  by (auto simp: has_interval_def list_ex_iff fire_next_def Let_def)

lemma fire_many:
  "has_interval s \<Longrightarrow>
     has_interval ((fire_next ^^ n) s) \<and> length (calls ((fire_next ^^ n) s)) = length (calls s) + n"
  by (induction n) (simp_all add: fire_next_has_interval fire_next_calls)

lemma start_has_interval: "has_interval (plugin_start opts s)"
  by (simp add: has_interval_def plugin_start_def)

text \<open>
  C3 (as amended). \<open>plugin.stop\<close> changes nothing: the warm-up timeout and the
  interval armed by \<open>plugin.start\<close> stay armed, and after start and stop every turn
  of the event loop still calls \<open>checkAndPublishObservations\<close> once.
\<close>

theorem stop_leaves_timers_armed:
  "plugin_stop s = s
   \<and> timers (plugin_stop (plugin_start opts s)) =
       timers s @ [Timeout (clock s + 5000), Interval (clock s + 900000) 900000]
   \<and> length (calls ((fire_next ^^ n) (plugin_stop (plugin_start opts s)))) = length (calls s) + n"
  using fire_many [OF start_has_interval, of n opts s]
  by (simp add: plugin_stop_def) (simp add: plugin_start_def checkEveryNMinutes_def)

text \<open>
  C3 as stated fails: after start and stop on a fresh instance both timers are armed,
  and the event loop runs the cycle at 5000 ms and again at 900000 ms.
\<close>

theorem stop_counterexample:
  "timers (plugin_stop (plugin_start \<lparr>excludeList = None\<rparr> loaded)) =
     [Timeout 5000, Interval 900000 900000]
   \<and> calls (fire_next (plugin_stop (plugin_start \<lparr>excludeList = None\<rparr> loaded))) = [5000]
   \<and> calls (fire_next (fire_next (plugin_stop (plugin_start \<lparr>excludeList = None\<rparr> loaded)))) =
       [5000, 900000]"
  by (simp add: plugin_stop_def plugin_start_def loaded_def checkEveryNMinutes_def fire_next_def)

end
